theory Spec2Isabelle
  imports Main
begin

section \<open>The LendingProtocol contract\<close>

text \<open>
  A shallow embedding of the Solidity contract \<open>LendingProtocol\<close> (Solidity 0.8.28).
  Every \<open>uint256\<close> is a natural number; Solidity 0.8 checks its arithmetic, so each
  addition, multiplication and subtraction of the source is preceded here by the test
  that makes the source revert with an arithmetic panic. A function body is a function
  from the contract state to an outcome and the state reached when the body stops:
  outcome \<open>None\<close> is a normal return, \<open>Some e\<close> a revert. The state of a reverted
  body is the state with the writes made so far (what the body had written when it
  stopped); \<open>call\<close> is the transaction boundary, which throws these writes away.
\<close>

subsection \<open>Data\<close>

type_synonym address = nat

definition MAX_UINT256 :: nat where
  "MAX_UINT256 = 2 ^ 256 - 1"

text \<open>
  \<open>Revert\<close> carries the message of the failing \<open>require\<close>; \<open>Panic\<close> is the checked
  arithmetic of Solidity 0.8 (overflow, underflow); \<open>OwnableUnauthorizedAccount\<close> is the
  error of the \<open>onlyOwner\<close> modifier.
\<close>

datatype error = Revert string | Panic | OwnableUnauthorizedAccount

abbreviation InvalidAmount :: error where
  "InvalidAmount \<equiv> Revert ''Amount must be greater than 0''"

abbreviation NoCollateral :: error where
  "NoCollateral \<equiv> Revert ''No collateral deposited''"

abbreviation ExceedsCapacity :: error where
  "ExceedsCapacity \<equiv> Revert ''Exceeds borrowing capacity''"

abbreviation InsufficientReserve :: error where
  "InsufficientReserve \<equiv> Revert ''Insufficient loan tokens in contract''"

abbreviation NoActiveLoan :: error where
  "NoActiveLoan \<equiv> Revert ''No active loan''"

abbreviation ActiveDebt :: error where
  "ActiveDebt \<equiv> Revert ''Cannot withdraw with active debt''"

record UserPosition =
  collateralAmount :: nat
  loanAmount :: nat
  lastInterestUpdate :: nat
  accumulatedInterest :: nat

definition COLLATERALIZATION_RATIO :: nat where
  "COLLATERALIZATION_RATIO = 150"

definition INTEREST_RATE :: nat where
  "INTEREST_RATE = 5"

definition PRECISION :: nat where
  "PRECISION = 100"

subsection \<open>The two tokens\<close>

text \<open>
  Modelled from the spec: the contracts \<open>CollateralToken\<close> and \<open>LoanToken\<close> (the
  spec's ValueTransfer collaborator) are not among the sources; only their callers and
  tests are. The spec says a transfer moves value between participant and reserve and
  reports success or failure, and fails on insufficient balance or approval. A token is
  its balances and its allowances; a failed transfer is \<open>None\<close>.
\<close>

record erc20 =
  balanceOf :: "address \<Rightarrow> nat"
  allowance :: "address \<Rightarrow> address \<Rightarrow> nat"

definition move :: "(address \<Rightarrow> nat) \<Rightarrow> address \<Rightarrow> address \<Rightarrow> nat \<Rightarrow> address \<Rightarrow> nat" where
  "move b sender recipient amount =
     (let b1 = b(sender := b sender - amount)
      in b1(recipient := b1 recipient + amount))"

definition transfer :: "erc20 \<Rightarrow> address \<Rightarrow> address \<Rightarrow> nat \<Rightarrow> erc20 option" where
  "transfer tok sender recipient amount =
     (if balanceOf tok sender < amount then None
      else Some (tok\<lparr>balanceOf := move (balanceOf tok) sender recipient amount\<rparr>))"

definition transferFrom :: "erc20 \<Rightarrow> address \<Rightarrow> address \<Rightarrow> address \<Rightarrow> nat \<Rightarrow> erc20 option" where
  "transferFrom tok spender sender recipient amount =
     (if allowance tok sender spender < amount then None
      else if balanceOf tok sender < amount then None
      else Some (tok\<lparr>balanceOf := move (balanceOf tok) sender recipient amount,
                     allowance := (allowance tok)
                        (sender := (allowance tok sender)
                           (spender := allowance tok sender spender - amount))\<rparr>))"

subsection \<open>Contract state\<close>

text \<open>
  The mapping \<open>userPositions\<close>, the states of the two token contracts the immutables
  \<open>collateralToken\<close> and \<open>loanToken\<close> point to, the owner of \<open>Ownable\<close>, and the
  contract's own address (\<open>address(this)\<close>). The loan-asset reserve is
  \<open>balanceOf (loanToken s) (self s)\<close>, the collateral pool
  \<open>balanceOf (collateralToken s) (self s)\<close>.
\<close>

record ledger =
  userPositions :: "address \<Rightarrow> UserPosition"
  collateralToken :: erc20
  loanToken :: erc20
  owner :: address
  self :: address

type_synonym outcome = "error option \<times> ledger"

definition set_position :: "ledger \<Rightarrow> address \<Rightarrow> UserPosition \<Rightarrow> ledger" where
  "set_position s user p = s\<lparr>userPositions := (userPositions s)(user := p)\<rparr>"

text \<open>The transaction boundary: a revert discards every write of the body.\<close>

definition call :: "(ledger \<Rightarrow> outcome) \<Rightarrow> ledger \<Rightarrow> outcome" where
  "call body s = (case body s of (None, s') \<Rightarrow> (None, s') | (Some e, s') \<Rightarrow> (Some e, s))"

subsection \<open>Interest\<close>

text \<open>
  \<open>_updateInterest(user)\<close>, with \<open>block.timestamp\<close> as a parameter. The two storage
  writes are the last statements, after every checked operation.
\<close>

definition updateInterest :: "address \<Rightarrow> nat \<Rightarrow> ledger \<Rightarrow> outcome" where
  "updateInterest user block_timestamp s =
     (let position = userPositions s user in
      if loanAmount position > 0 \<and> lastInterestUpdate position > 0 then
        if block_timestamp < lastInterestUpdate position then (Some Panic, s)
        else
          let timeElapsed = block_timestamp - lastInterestUpdate position;
              weeksElapsed = timeElapsed div (7 * 24 * 60 * 60)
          in
          if weeksElapsed > 0 then
            if MAX_UINT256 < loanAmount position * INTEREST_RATE then (Some Panic, s)
            else if MAX_UINT256 < loanAmount position * INTEREST_RATE * weeksElapsed
              then (Some Panic, s)
            else
              let newInterest =
                    (loanAmount position * INTEREST_RATE * weeksElapsed) div PRECISION
              in
              if MAX_UINT256 < accumulatedInterest position + newInterest
                then (Some Panic, s)
              else (None, set_position s user
                      (position\<lparr>accumulatedInterest :=
                                   accumulatedInterest position + newInterest,
                                 lastInterestUpdate := block_timestamp\<rparr>))
          else (None, s)
      else (None, s))"

text \<open>
  \<open>getUserData(user)\<close>, a \<open>view\<close> function: it works on a memory copy of the position
  and has no state to return.
\<close>

definition getUserData :: "ledger \<Rightarrow> address \<Rightarrow> nat \<Rightarrow> error + (nat \<times> nat \<times> nat)" where
  "getUserData s user block_timestamp =
     (let position = userPositions s user;
          collateral = collateralAmount position;
          debt = loanAmount position;
          interest = accumulatedInterest position
      in
      if loanAmount position > 0 \<and> lastInterestUpdate position > 0 then
        if block_timestamp < lastInterestUpdate position then Inl Panic
        else
          let timeElapsed = block_timestamp - lastInterestUpdate position;
              weeksElapsed = timeElapsed div (7 * 24 * 60 * 60)
          in
          if weeksElapsed > 0 then
            if MAX_UINT256 < loanAmount position * INTEREST_RATE then Inl Panic
            else if MAX_UINT256 < loanAmount position * INTEREST_RATE * weeksElapsed
              then Inl Panic
            else
              let newInterest =
                    (loanAmount position * INTEREST_RATE * weeksElapsed) div PRECISION
              in
              if MAX_UINT256 < interest + newInterest then Inl Panic
              else Inr (collateral, debt, interest + newInterest)
          else Inr (collateral, debt, interest)
      else Inr (collateral, debt, interest))"

subsection \<open>The four operations of a participant\<close>

text \<open>
  \<open>msg.sender\<close> and \<open>block.timestamp\<close> are parameters. The modifier \<open>nonReentrant\<close>
  has no effect here: the modelled tokens never call back.
\<close>

definition depositCollateral :: "address \<Rightarrow> nat \<Rightarrow> ledger \<Rightarrow> outcome" where
  "depositCollateral msg_sender amount s =
     (if \<not> amount > 0 then (Some (Revert ''Amount must be greater than 0''), s)
      else
        case transferFrom (collateralToken s) (self s) msg_sender (self s) amount of
          None \<Rightarrow> (Some (Revert ''Collateral transfer failed''), s)
        | Some tok \<Rightarrow>
            let s1 = s\<lparr>collateralToken := tok\<rparr>;
                position = userPositions s1 msg_sender
            in
            if MAX_UINT256 < collateralAmount position + amount then (Some Panic, s1)
            else (None, set_position s1 msg_sender
                    (position\<lparr>collateralAmount := collateralAmount position + amount\<rparr>)))"

definition borrow :: "address \<Rightarrow> nat \<Rightarrow> nat \<Rightarrow> ledger \<Rightarrow> outcome" where
  "borrow msg_sender amount block_timestamp s =
     (if \<not> amount > 0 then (Some (Revert ''Amount must be greater than 0''), s)
      else if \<not> collateralAmount (userPositions s msg_sender) > 0
        then (Some (Revert ''No collateral deposited''), s)
      else
        case updateInterest msg_sender block_timestamp s of
          (Some e, s1) \<Rightarrow> (Some e, s1)
        | (None, s1) \<Rightarrow>
            let position = userPositions s1 msg_sender in
            if MAX_UINT256 < collateralAmount position * PRECISION then (Some Panic, s1)
            else
              let maxBorrowable =
                    (collateralAmount position * PRECISION) div COLLATERALIZATION_RATIO
              in
              if MAX_UINT256 < loanAmount position + accumulatedInterest position
                then (Some Panic, s1)
              else
                let currentDebt = loanAmount position + accumulatedInterest position in
                if MAX_UINT256 < currentDebt + amount then (Some Panic, s1)
                else if \<not> currentDebt + amount \<le> maxBorrowable
                  then (Some (Revert ''Exceeds borrowing capacity''), s1)
                else if \<not> balanceOf (loanToken s1) (self s1) \<ge> amount
                  then (Some (Revert ''Insufficient loan tokens in contract''), s1)
                else if MAX_UINT256 < loanAmount position + amount then (Some Panic, s1)
                else
                  let s2 = set_position s1 msg_sender
                             (position\<lparr>loanAmount := loanAmount position + amount,
                                        lastInterestUpdate := block_timestamp\<rparr>)
                  in
                  (case transfer (loanToken s2) (self s2) msg_sender amount of
                     None \<Rightarrow> (Some (Revert ''Loan transfer failed''), s2)
                   | Some tok \<Rightarrow> (None, s2\<lparr>loanToken := tok\<rparr>)))"

definition repay :: "address \<Rightarrow> nat \<Rightarrow> ledger \<Rightarrow> outcome" where
  "repay msg_sender block_timestamp s =
     (if \<not> loanAmount (userPositions s msg_sender) > 0
        then (Some (Revert ''No active loan''), s)
      else
        case updateInterest msg_sender block_timestamp s of
          (Some e, s1) \<Rightarrow> (Some e, s1)
        | (None, s1) \<Rightarrow>
            let position = userPositions s1 msg_sender in
            if MAX_UINT256 < loanAmount position + accumulatedInterest position
              then (Some Panic, s1)
            else
              let totalDebt = loanAmount position + accumulatedInterest position in
              (case transferFrom (loanToken s1) (self s1) msg_sender (self s1) totalDebt of
                 None \<Rightarrow> (Some (Revert ''Repayment transfer failed''), s1)
               | Some tok \<Rightarrow>
                   (None, set_position (s1\<lparr>loanToken := tok\<rparr>) msg_sender
                      (position\<lparr>loanAmount := 0,
                                 accumulatedInterest := 0,
                                 lastInterestUpdate := 0\<rparr>))))"

definition withdrawCollateral :: "address \<Rightarrow> nat \<Rightarrow> ledger \<Rightarrow> outcome" where
  "withdrawCollateral msg_sender block_timestamp s =
     (if \<not> collateralAmount (userPositions s msg_sender) > 0
        then (Some (Revert ''No collateral to withdraw''), s)
      else
        case (if loanAmount (userPositions s msg_sender) > 0
              then updateInterest msg_sender block_timestamp s else (None, s)) of
          (Some e, s1) \<Rightarrow> (Some e, s1)
        | (None, s1) \<Rightarrow>
            let position = userPositions s1 msg_sender in
            if MAX_UINT256 < loanAmount position + accumulatedInterest position
              then (Some Panic, s1)
            else
              let currentDebt = loanAmount position + accumulatedInterest position in
              if \<not> currentDebt = 0
                then (Some (Revert ''Cannot withdraw with active debt''), s1)
              else
                let collateralAmount' = collateralAmount position;
                    s2 = set_position s1 msg_sender (position\<lparr>collateralAmount := 0\<rparr>)
                in
                (case transfer (collateralToken s2) (self s2) msg_sender collateralAmount' of
                   None \<Rightarrow> (Some (Revert ''Collateral withdrawal failed''), s2)
                 | Some tok \<Rightarrow> (None, s2\<lparr>collateralToken := tok\<rparr>)))"

subsection \<open>The two operations of the owner\<close>

definition fundContract :: "address \<Rightarrow> nat \<Rightarrow> ledger \<Rightarrow> outcome" where
  "fundContract msg_sender amount s =
     (if msg_sender \<noteq> owner s then (Some OwnableUnauthorizedAccount, s)
      else
        case transferFrom (loanToken s) (self s) msg_sender (self s) amount of
          None \<Rightarrow> (Some (Revert ''Funding transfer failed''), s)
        | Some tok \<Rightarrow> (None, s\<lparr>loanToken := tok\<rparr>))"

definition withdrawExcess :: "address \<Rightarrow> nat \<Rightarrow> ledger \<Rightarrow> outcome" where
  "withdrawExcess msg_sender amount s =
     (if msg_sender \<noteq> owner s then (Some OwnableUnauthorizedAccount, s)
      else
        case transfer (loanToken s) (self s) msg_sender amount of
          None \<Rightarrow> (Some (Revert ''Withdrawal failed''), s)
        | Some tok \<Rightarrow> (None, s\<lparr>loanToken := tok\<rparr>))"

subsection \<open>Transactions\<close>

text \<open>
  The contract is driven by transactions, each with its sender and its block timestamp.
  \<open>TokenActivity\<close> stands for everything that happens on the two token contracts
  outside \<open>LendingProtocol\<close> (approvals, mints, transfers between accounts); it
  replaces the token states and over-approximates what accounts can do there.
\<close>

datatype operation =
    DepositCollateral nat
  | Borrow nat
  | Repay
  | WithdrawCollateral
  | FundContract nat
  | WithdrawExcess nat
  | TokenActivity erc20 erc20

fun exec :: "address \<Rightarrow> nat \<Rightarrow> operation \<Rightarrow> ledger \<Rightarrow> outcome" where
  "exec msg_sender block_timestamp (DepositCollateral amount) s =
     call (depositCollateral msg_sender amount) s"
| "exec msg_sender block_timestamp (Borrow amount) s =
     call (borrow msg_sender amount block_timestamp) s"
| "exec msg_sender block_timestamp Repay s =
     call (repay msg_sender block_timestamp) s"
| "exec msg_sender block_timestamp WithdrawCollateral s =
     call (withdrawCollateral msg_sender block_timestamp) s"
| "exec msg_sender block_timestamp (FundContract amount) s =
     call (fundContract msg_sender amount) s"
| "exec msg_sender block_timestamp (WithdrawExcess amount) s =
     call (withdrawExcess msg_sender amount) s"
| "exec msg_sender block_timestamp (TokenActivity c l) s =
     (None, s\<lparr>collateralToken := c, loanToken := l\<rparr>)"

fun run :: "(address \<times> nat \<times> operation) list \<Rightarrow> ledger \<Rightarrow> ledger" where
  "run [] s = s"
| "run ((msg_sender, block_timestamp, operation) # txs) s =
     run txs (snd (exec msg_sender block_timestamp operation s))"

text \<open>A mapping of Solidity holds the zero value at every key never written.\<close>

definition zero_position :: UserPosition where
  "zero_position = \<lparr>collateralAmount = 0, loanAmount = 0, lastInterestUpdate = 0,
                     accumulatedInterest = 0\<rparr>"

definition deployed :: "erc20 \<Rightarrow> erc20 \<Rightarrow> address \<Rightarrow> address \<Rightarrow> ledger" where
  "deployed c l initialOwner this =
     \<lparr>userPositions = (\<lambda>_. zero_position), collateralToken = c, loanToken = l,
      owner = initialOwner, self = this\<rparr>"

text \<open>No principal means no interest and no accrual clock.\<close>

definition settled :: "UserPosition \<Rightarrow> bool" where
  "settled p =
     (loanAmount p = 0 \<longrightarrow> accumulatedInterest p = 0 \<and> lastInterestUpdate p = 0)"

subsection \<open>A concrete ledger\<close>

text \<open>
  The shape of the fixture of the repository's tests: owner \<open>0\<close>, the contract at
  address \<open>100\<close>, a participant \<open>7\<close> holding \<open>10000\<close> of each token and having
  approved the contract for them, a funded reserve. The position of participant
  \<open>7\<close> is the parameter.
\<close>

definition fixture_collateral :: erc20 where
  "fixture_collateral =
     \<lparr>balanceOf = (\<lambda>_. 0)(7 := 10000, 100 := 1500),
      allowance = (\<lambda>_ _. 0)(7 := (\<lambda>_. 0)(100 := 10000))\<rparr>"

definition fixture_loan :: erc20 where
  "fixture_loan =
     \<lparr>balanceOf = (\<lambda>_. 0)(0 := 5000, 7 := 10000, 100 := 100000),
      allowance = (\<lambda>_ _. 0)(0 := (\<lambda>_. 0)(100 := 5000), 7 := (\<lambda>_. 0)(100 := 10000))\<rparr>"

definition fixture :: "UserPosition \<Rightarrow> ledger" where
  "fixture p =
     \<lparr>userPositions = (\<lambda>_. zero_position)(7 := p),
      collateralToken = fixture_collateral,
      loanToken = fixture_loan,
      owner = 0,
      self = 100\<rparr>"

text \<open>
  Participant \<open>7\<close> after depositing \<open>1500\<close> and borrowing \<open>1000\<close> at time
  \<open>1000\<close>; a collateral of \<open>2 ^ 255\<close> and no debt; a loan of \<open>30\<close> taken at
  time \<open>1000\<close>; a collateral of \<open>500\<close> and no debt.
\<close>

definition active_loan :: ledger where
  "active_loan =
     fixture \<lparr>collateralAmount = 1500, loanAmount = 1000, lastInterestUpdate = 1000,
              accumulatedInterest = 0\<rparr>"

definition huge_collateral :: ledger where
  "huge_collateral =
     fixture \<lparr>collateralAmount = 2 ^ 255, loanAmount = 0, lastInterestUpdate = 0,
              accumulatedInterest = 0\<rparr>"

definition small_loan :: ledger where
  "small_loan =
     fixture \<lparr>collateralAmount = 1500, loanAmount = 30, lastInterestUpdate = 1000,
              accumulatedInterest = 0\<rparr>"

definition collateral_only :: ledger where
  "collateral_only =
     fixture \<lparr>collateralAmount = 500, loanAmount = 0, lastInterestUpdate = 0,
              accumulatedInterest = 0\<rparr>"

text \<open>
  The largest loan the contract grants, reached by two transactions on the deployed
  contract: participant \<open>7\<close> holds and has approved \<open>MAX_UINT256 div 100\<close>
  collateral tokens, the largest collateral for which \<open>collateralAmount * PRECISION\<close>
  does not overflow, the reserve holds as many loan tokens, and at time \<open>1000\<close> the
  participant deposits all of it and borrows the maximum,
  floor(collateral * 100 / 150).
\<close>

definition whale_collateral :: erc20 where
  "whale_collateral =
     \<lparr>balanceOf = (\<lambda>_. 0)(7 := MAX_UINT256 div 100),
      allowance = (\<lambda>_ _. 0)(7 := (\<lambda>_. 0)(100 := MAX_UINT256 div 100))\<rparr>"

definition whale_loan :: erc20 where
  "whale_loan =
     \<lparr>balanceOf = (\<lambda>_. 0)(100 := MAX_UINT256 div 100),
      allowance = (\<lambda>_ _. 0)\<rparr>"

definition overflowing_loan :: ledger where
  "overflowing_loan =
     run [(7, 1000, DepositCollateral (MAX_UINT256 div 100)),
          (7, 1000, Borrow (MAX_UINT256 div 100 * 100 div 150))]
       (deployed whale_collateral whale_loan 0 100)"

section \<open>Properties\<close>

subsection \<open>Constants, the transaction boundary, the tokens\<close>

lemma MAX_UINT256_eq:
  "MAX_UINT256 =
     115792089237316195423570985008687907853269984665640564039457584007913129639935"
  by (simp add: MAX_UINT256_def)

lemmas constants = PRECISION_def COLLATERALIZATION_RATIO_def INTEREST_RATE_def

lemmas eval_defs = call_def borrow_def repay_def depositCollateral_def withdrawCollateral_def
  updateInterest_def getUserData_def fundContract_def withdrawExcess_def
  transfer_def transferFrom_def move_def set_position_def Let_def
  constants MAX_UINT256_eq
  fixture_def fixture_loan_def fixture_collateral_def zero_position_def

lemma call_None: "call body s = (None, s') \<longleftrightarrow> body s = (None, s')"
  by (auto simp: call_def split: prod.splits option.splits)

lemma call_revert: "fst (call body s) \<noteq> None \<Longrightarrow> snd (call body s) = s"
  by (auto simp: call_def split: prod.splits option.splits)

lemma fst_call: "fst (call body s) = fst (body s)"
  by (auto simp: call_def split: prod.splits option.splits)

lemma move_balances:
  "a \<noteq> b \<Longrightarrow> move f a b n a = f a - n"
  "a \<noteq> b \<Longrightarrow> move f a b n b = f b + n"
  "c \<noteq> a \<Longrightarrow> c \<noteq> b \<Longrightarrow> move f a b n c = f c"
  by (simp_all add: move_def Let_def)

lemma transfer_Some:
  "transfer tok a b n = Some tok' \<Longrightarrow>
     n \<le> balanceOf tok a \<and> tok' = tok\<lparr>balanceOf := move (balanceOf tok) a b n\<rparr>"
  by (auto simp: transfer_def split: if_splits)

lemma transferFrom_Some:
  "transferFrom tok spender a b n = Some tok' \<Longrightarrow>
     n \<le> balanceOf tok a \<and> n \<le> allowance tok a spender
     \<and> balanceOf tok' = move (balanceOf tok) a b n"
  by (auto simp: transferFrom_def split: if_splits)

subsection \<open>What the accrual does\<close>

lemma updateInterest_revert:
  "updateInterest user t s = (Some e, s') \<Longrightarrow> e = Panic \<and> s' = s"
  by (auto simp: updateInterest_def Let_def split: if_splits)

lemma updateInterest_frame:
  assumes "updateInterest user t s = (r, s')"
  shows "collateralToken s' = collateralToken s"
    and "loanToken s' = loanToken s"
    and "owner s' = owner s"
    and "self s' = self s"
    and "v \<noteq> user \<Longrightarrow> userPositions s' v = userPositions s v"
    and "collateralAmount (userPositions s' v) = collateralAmount (userPositions s v)"
    and "loanAmount (userPositions s' v) = loanAmount (userPositions s v)"
  using assms
  by (auto simp: updateInterest_def Let_def set_position_def split: if_splits)

lemma updateInterest_noop:
  "loanAmount (userPositions s user) = 0 \<or> lastInterestUpdate (userPositions s user) = 0
     \<Longrightarrow> updateInterest user t s = (None, s)"
  by (auto simp: updateInterest_def Let_def)

lemma updateInterest_partial_week:
  "lastInterestUpdate (userPositions s user) \<le> t
     \<Longrightarrow> (t - lastInterestUpdate (userPositions s user)) div 604800 = 0
     \<Longrightarrow> updateInterest user t s = (None, s)"
  by (auto simp: updateInterest_def Let_def)

lemma mult_week_bound:
  fixes a k m :: nat
  assumes "0 < k" "a * k \<le> m"
  shows "a \<le> m"
proof -
  have "a \<le> a * k" using assms(1) by (cases k) simp_all
  then show ?thesis using assms(2) by (rule le_trans)
qed

lemma updateInterest_accrues:
  assumes "0 < loanAmount (userPositions s user)"
    and "0 < lastInterestUpdate (userPositions s user)"
    and "lastInterestUpdate (userPositions s user) \<le> t"
    and "0 < (t - lastInterestUpdate (userPositions s user)) div 604800"
    and "loanAmount (userPositions s user) * 5
           * ((t - lastInterestUpdate (userPositions s user)) div 604800) \<le> MAX_UINT256"
    and "accumulatedInterest (userPositions s user)
           + loanAmount (userPositions s user) * 5
               * ((t - lastInterestUpdate (userPositions s user)) div 604800) div 100
           \<le> MAX_UINT256"
  shows "updateInterest user t s =
           (None, set_position s user
              ((userPositions s user)
                 \<lparr>accumulatedInterest :=
                    accumulatedInterest (userPositions s user)
                      + loanAmount (userPositions s user) * 5
                          * ((t - lastInterestUpdate (userPositions s user)) div 604800) div 100,
                  lastInterestUpdate := t\<rparr>))"
proof -
  have "loanAmount (userPositions s user) * 5 \<le> MAX_UINT256"
    using mult_week_bound [OF assms(4) assms(5)] .
  with assms show ?thesis
    by (simp add: updateInterest_def Let_def constants not_less [symmetric])
qed

lemma updateInterest_panics:
  assumes "0 < loanAmount (userPositions s user)"
    and "0 < lastInterestUpdate (userPositions s user)"
    and "t < lastInterestUpdate (userPositions s user)
         \<or> 0 < (t - lastInterestUpdate (userPositions s user)) div 604800
           \<and> (MAX_UINT256 < loanAmount (userPositions s user) * 5
                  * ((t - lastInterestUpdate (userPositions s user)) div 604800)
              \<or> MAX_UINT256 < accumulatedInterest (userPositions s user)
                  + loanAmount (userPositions s user) * 5
                      * ((t - lastInterestUpdate (userPositions s user)) div 604800) div 100)"
  shows "updateInterest user t s = (Some Panic, s)"
  using assms
  by (auto simp: updateInterest_def Let_def constants)

subsection \<open>Successful operations, unfolded\<close>

lemma borrow_after_accrual:
  assumes "0 < amount" and "0 < collateralAmount (userPositions s user)"
    and u: "updateInterest user t s = (None, s1)"
  shows "borrow user amount t s =
     (let a = userPositions s1 user; debt = loanAmount a + accumulatedInterest a in
      if MAX_UINT256 < collateralAmount a * 100 \<or> MAX_UINT256 < debt + amount
        then (Some Panic, s1)
      else if collateralAmount a * 100 div 150 < debt + amount
        then (Some ExceedsCapacity, s1)
      else if balanceOf (loanToken s) (self s) < amount
        then (Some InsufficientReserve, s1)
      else (None, (set_position s1 user
                     (a\<lparr>loanAmount := loanAmount a + amount, lastInterestUpdate := t\<rparr>))
                  \<lparr>loanToken := (loanToken s)
                     \<lparr>balanceOf := move (balanceOf (loanToken s)) (self s) user amount\<rparr>\<rparr>))"
  using assms(1,2) updateInterest_frame(2,4) [OF u]
  by (auto simp: borrow_def u Let_def constants transfer_def set_position_def not_le not_less)

lemma borrow_accrual_panics:
  assumes "0 < amount" and "0 < collateralAmount (userPositions s user)"
    and u: "fst (updateInterest user t s) \<noteq> None"
  shows "borrow user amount t s = (Some Panic, s)"
proof -
  obtain e s1 where "updateInterest user t s = (Some e, s1)"
    using u by (cases "updateInterest user t s") auto
  moreover from this have "e = Panic \<and> s1 = s" by (rule updateInterest_revert)
  ultimately show ?thesis using assms(1,2) by (simp add: borrow_def)
qed

lemma depositCollateral_success:
  assumes "depositCollateral user amount s = (None, s')"
  obtains tok where
    "0 < amount"
    "transferFrom (collateralToken s) (self s) user (self s) amount = Some tok"
    "s' = set_position (s\<lparr>collateralToken := tok\<rparr>) user
            ((userPositions s user)
               \<lparr>collateralAmount := collateralAmount (userPositions s user) + amount\<rparr>)"
  using assms
  by (auto simp: depositCollateral_def Let_def split: if_splits option.splits)

lemma repay_success:
  assumes "repay user t s = (None, s')"
  obtains s1 tok where
    "0 < loanAmount (userPositions s user)"
    "updateInterest user t s = (None, s1)"
    "transferFrom (loanToken s) (self s) user (self s)
       (loanAmount (userPositions s1 user) + accumulatedInterest (userPositions s1 user))
       = Some tok"
    "s' = set_position (s1\<lparr>loanToken := tok\<rparr>) user
            ((userPositions s1 user)
               \<lparr>loanAmount := 0, accumulatedInterest := 0, lastInterestUpdate := 0\<rparr>)"
proof -
  from assms have l: "0 < loanAmount (userPositions s user)"
    by (auto simp: repay_def split: if_splits)
  obtain r s1 where u: "updateInterest user t s = (r, s1)"
    by (cases "updateInterest user t s") auto
  note f = updateInterest_frame [OF u]
  from assms l u have r: "r = None"
    by (cases r) (auto simp: repay_def)
  from assms l u r f(2,4) that [OF l u [unfolded r]] show thesis
    by (auto simp: repay_def Let_def split: if_splits option.splits)
qed

lemma withdrawCollateral_success:
  assumes "withdrawCollateral user t s = (None, s')"
  obtains s1 tok where
    "0 < collateralAmount (userPositions s user)"
    "(if 0 < loanAmount (userPositions s user) then updateInterest user t s else (None, s))
       = (None, s1)"
    "loanAmount (userPositions s1 user) + accumulatedInterest (userPositions s1 user) = 0"
    "transfer (collateralToken s) (self s) user (collateralAmount (userPositions s1 user))
       = Some tok"
    "s' = (set_position s1 user ((userPositions s1 user)\<lparr>collateralAmount := 0\<rparr>))
            \<lparr>collateralToken := tok\<rparr>"
proof -
  from assms have c: "0 < collateralAmount (userPositions s user)"
    by (auto simp: withdrawCollateral_def split: if_splits)
  obtain r s1 where
    u: "(if 0 < loanAmount (userPositions s user) then updateInterest user t s else (None, s))
          = (r, s1)"
    by (cases "if 0 < loanAmount (userPositions s user) then updateInterest user t s
               else (None, s)") auto
  have f: "collateralToken s1 = collateralToken s" "self s1 = self s"
    using u updateInterest_frame(1,4) [of user t s r s1] by (auto split: if_splits)
  from assms c u have r: "r = None"
    by (cases r) (auto simp: withdrawCollateral_def)
  from assms c u r f that [OF c u [unfolded r]] show thesis
    by (auto simp: withdrawCollateral_def Let_def set_position_def
        split: if_splits option.splits)
qed

lemma owner_operations_positions:
  "userPositions (snd (call (fundContract sender amount) s)) = userPositions s"
  "userPositions (snd (call (withdrawExcess sender amount) s)) = userPositions s"
  by (simp_all add: call_def fundContract_def withdrawExcess_def split: option.splits)

subsection \<open>The collateralization bound after a borrow\<close>

text \<open>
  C1. After a successful \<open>borrow\<close> the caller's position satisfies
  principal + accrued interest \<open>\<le>\<close> floor(collateral * 100 / 150), whatever the state the
  call started from.
\<close>

theorem borrow_collateral_bound:
  assumes "call (borrow user amount t) s = (None, s')"
  shows "loanAmount (userPositions s' user) + accumulatedInterest (userPositions s' user)
           \<le> (collateralAmount (userPositions s' user) * 100) div 150"
  using assms
  by (auto simp: call_def borrow_def Let_def set_position_def constants
      split: if_splits prod.splits option.splits)

theorem borrow_collateral_bound_witness:
  "fst (call (borrow 7 400 1209700)
          (fixture \<lparr>collateralAmount = 1500, loanAmount = 500, lastInterestUpdate = 100,
                    accumulatedInterest = 0\<rparr>)) = None
   \<and> loanAmount (userPositions (snd (call (borrow 7 400 1209700)
          (fixture \<lparr>collateralAmount = 1500, loanAmount = 500, lastInterestUpdate = 100,
                    accumulatedInterest = 0\<rparr>))) 7) = 900
   \<and> accumulatedInterest (userPositions (snd (call (borrow 7 400 1209700)
          (fixture \<lparr>collateralAmount = 1500, loanAmount = 500, lastInterestUpdate = 100,
                    accumulatedInterest = 0\<rparr>))) 7) = 50
   \<and> (900::nat) + 50 \<le> 1500 * 100 div 150"
proof -
  let ?s = "fixture \<lparr>collateralAmount = 1500, loanAmount = 500, lastInterestUpdate = 100,
                    accumulatedInterest = 0\<rparr>"
  have ok: "fst (call (borrow 7 400 1209700) ?s) = None"
    by (simp add: eval_defs)
  then have h: "call (borrow 7 400 1209700) ?s = (None, snd (call (borrow 7 400 1209700) ?s))"
    by (metis prod.collapse)
  have l: "loanAmount (userPositions (snd (call (borrow 7 400 1209700) ?s)) 7) = 900"
    by (simp add: eval_defs)
  have a: "accumulatedInterest (userPositions (snd (call (borrow 7 400 1209700) ?s)) 7) = 50"
    by (simp add: eval_defs)
  from borrow_collateral_bound [OF h] ok l a show ?thesis by simp
qed

subsection \<open>The accrual rule\<close>

text \<open>
  C2 (amended). For a position whose accrual clock is set whenever it has a principal (as
  in every state the transactions reach) and a block timestamp not before the clock:
  \<open>_updateInterest\<close> leaves the position as it is when the principal is zero, and
  when less than a whole week has passed since the last accrual; otherwise, when
  \<open>principal * 5 * weeks\<close> and accrued interest plus the new interest fit in
  \<open>uint256\<close>, it adds exactly floor(principal * 5 * weeks / 100) to the accrued
  interest and sets the clock to the block timestamp, with collateral and principal
  untouched, and when they do not fit it reverts with an arithmetic panic, nothing
  written. The statement covers the other positions and timestamps too: a principal with
  an unset clock (\<open>lastInterestUpdate = 0\<close>) is left as it is, and a timestamp
  before a running clock is an arithmetic panic.
\<close>

theorem updateInterest_accrual:
  "let p = userPositions s user;
       k = (t - lastInterestUpdate p) div (7 * 24 * 60 * 60);
       i = loanAmount p * 5 * k div 100
   in
     (loanAmount p = 0 \<or> lastInterestUpdate p = 0
        \<longrightarrow> updateInterest user t s = (None, s))
   \<and> (lastInterestUpdate p \<le> t \<and> k = 0
        \<longrightarrow> updateInterest user t s = (None, s))
   \<and> (0 < loanAmount p \<and> 0 < lastInterestUpdate p \<and> lastInterestUpdate p \<le> t \<and> 0 < k
        \<and> loanAmount p * 5 * k \<le> MAX_UINT256 \<and> accumulatedInterest p + i \<le> MAX_UINT256
        \<longrightarrow> updateInterest user t s =
              (None, set_position s user
                 (p\<lparr>accumulatedInterest := accumulatedInterest p + i,
                    lastInterestUpdate := t\<rparr>)))
   \<and> (0 < loanAmount p \<and> 0 < lastInterestUpdate p
        \<and> (t < lastInterestUpdate p
             \<or> 0 < k \<and> (MAX_UINT256 < loanAmount p * 5 * k
                         \<or> MAX_UINT256 < accumulatedInterest p + i))
        \<longrightarrow> updateInterest user t s = (Some Panic, s))"
  unfolding Let_def
proof (intro conjI impI)
  assume "loanAmount (userPositions s user) = 0 \<or> lastInterestUpdate (userPositions s user) = 0"
  then show "updateInterest user t s = (None, s)"
    by (rule updateInterest_noop)
next
  assume "lastInterestUpdate (userPositions s user) \<le> t
    \<and> (t - lastInterestUpdate (userPositions s user)) div (7 * 24 * 60 * 60) = 0"
  then show "updateInterest user t s = (None, s)"
    using updateInterest_partial_week [of s user t] by simp
next
  assume a: "0 < loanAmount (userPositions s user) \<and> 0 < lastInterestUpdate (userPositions s user)
    \<and> lastInterestUpdate (userPositions s user) \<le> t
    \<and> 0 < (t - lastInterestUpdate (userPositions s user)) div (7 * 24 * 60 * 60)
    \<and> loanAmount (userPositions s user) * 5
         * ((t - lastInterestUpdate (userPositions s user)) div (7 * 24 * 60 * 60)) \<le> MAX_UINT256
    \<and> accumulatedInterest (userPositions s user)
         + loanAmount (userPositions s user) * 5
             * ((t - lastInterestUpdate (userPositions s user)) div (7 * 24 * 60 * 60)) div 100
         \<le> MAX_UINT256"
  then show "updateInterest user t s =
      (None, set_position s user
         ((userPositions s user)
            \<lparr>accumulatedInterest := accumulatedInterest (userPositions s user)
                + loanAmount (userPositions s user) * 5
                    * ((t - lastInterestUpdate (userPositions s user)) div (7 * 24 * 60 * 60)) div 100,
             lastInterestUpdate := t\<rparr>))"
    using updateInterest_accrues [of s user t] by simp
next
  assume "0 < loanAmount (userPositions s user) \<and> 0 < lastInterestUpdate (userPositions s user)
    \<and> (t < lastInterestUpdate (userPositions s user)
       \<or> 0 < (t - lastInterestUpdate (userPositions s user)) div (7 * 24 * 60 * 60)
         \<and> (MAX_UINT256 < loanAmount (userPositions s user) * 5
                * ((t - lastInterestUpdate (userPositions s user)) div (7 * 24 * 60 * 60))
            \<or> MAX_UINT256 < accumulatedInterest (userPositions s user)
                + loanAmount (userPositions s user) * 5
                    * ((t - lastInterestUpdate (userPositions s user)) div (7 * 24 * 60 * 60)) div 100))"
  then show "updateInterest user t s = (Some Panic, s)"
    using updateInterest_panics [of s user t] by simp
qed

theorem updateInterest_accrual_witness:
  "0 < loanAmount (userPositions active_loan 7)
   \<and> 0 < lastInterestUpdate (userPositions active_loan 7)
   \<and> lastInterestUpdate (userPositions active_loan 7) \<le> 605800
   \<and> (605800 - lastInterestUpdate (userPositions active_loan 7)) div (7 * 24 * 60 * 60) = 1
   \<and> fst (updateInterest 7 605800 active_loan) = None
   \<and> accumulatedInterest (userPositions (snd (updateInterest 7 605800 active_loan)) 7) = 50
   \<and> lastInterestUpdate (userPositions (snd (updateInterest 7 605800 active_loan)) 7) = 605800
   \<and> loanAmount (userPositions (snd (updateInterest 7 605800 active_loan)) 7) = 1000
   \<and> collateralAmount (userPositions (snd (updateInterest 7 605800 active_loan)) 7) = 1500
   \<and> updateInterest 7 605799 active_loan = (None, active_loan)
   \<and> updateInterest 7 999 active_loan = (Some Panic, active_loan)
   \<and> updateInterest 7 605800 collateral_only = (None, collateral_only)"
proof -
  have p: "userPositions active_loan 7 =
      \<lparr>collateralAmount = 1500, loanAmount = 1000, lastInterestUpdate = 1000,
       accumulatedInterest = 0\<rparr>"
    by (simp add: active_loan_def fixture_def)
  have q: "userPositions collateral_only 7 =
      \<lparr>collateralAmount = 500, loanAmount = 0, lastInterestUpdate = 0,
       accumulatedInterest = 0\<rparr>"
    by (simp add: collateral_only_def fixture_def)
  have a: "updateInterest 7 605800 active_loan =
      (None, set_position active_loan 7
         \<lparr>collateralAmount = 1500, loanAmount = 1000, lastInterestUpdate = 605800,
          accumulatedInterest = 50\<rparr>)"
    using updateInterest_accrual [of active_loan 7 605800]
    by (simp add: Let_def p MAX_UINT256_eq)
  have b: "updateInterest 7 605799 active_loan = (None, active_loan)"
    using updateInterest_accrual [of active_loan 7 605799]
    by (simp add: Let_def p MAX_UINT256_eq)
  have c: "updateInterest 7 999 active_loan = (Some Panic, active_loan)"
    using updateInterest_accrual [of active_loan 7 999]
    by (simp add: Let_def p MAX_UINT256_eq)
  have d: "updateInterest 7 605800 collateral_only = (None, collateral_only)"
    using updateInterest_accrual [of collateral_only 7 605800]
    by (simp add: Let_def q MAX_UINT256_eq)
  show ?thesis
    by (simp add: a b c d p set_position_def)
qed

lemma overflowing_loan_position:
  "userPositions overflowing_loan 7 =
     \<lparr>collateralAmount = MAX_UINT256 div 100,
      loanAmount = MAX_UINT256 div 100 * 100 div 150,
      lastInterestUpdate = 1000,
      accumulatedInterest = 0\<rparr>"
  by (simp add: overflowing_loan_def deployed_def whale_collateral_def whale_loan_def eval_defs)

text \<open>
  Without the overflow the rule fails on a loan that was really granted: the largest loan,
  taken at time \<open>1000\<close>, has \<open>31\<close> whole weeks behind it at time
  \<open>18749800\<close>, and the checked product \<open>loanAmount * INTEREST_RATE * weeksElapsed\<close>
  exceeds \<open>uint256\<close>: the call reverts, no interest is added and the clock stays at
  \<open>1000\<close>.
\<close>

theorem accrue_overflow_counterexample:
  "loanAmount (userPositions overflowing_loan 7) \<noteq> 0
   \<and> (18749800 - lastInterestUpdate (userPositions overflowing_loan 7)) div (7 * 24 * 60 * 60)
       \<noteq> 0
   \<and> fst (updateInterest 7 18749800 overflowing_loan) = Some Panic
   \<and> lastInterestUpdate (userPositions (snd (updateInterest 7 18749800 overflowing_loan)) 7)
       \<noteq> 18749800
   \<and> accumulatedInterest (userPositions (snd (updateInterest 7 18749800 overflowing_loan)) 7)
       \<noteq> accumulatedInterest (userPositions overflowing_loan 7)
           + loanAmount (userPositions overflowing_loan 7) * 5
               * ((18749800 - lastInterestUpdate (userPositions overflowing_loan 7))
                    div (7 * 24 * 60 * 60)) div 100"
proof -
  have u: "updateInterest 7 18749800 overflowing_loan = (Some Panic, overflowing_loan)"
    by (simp add: updateInterest_def Let_def overflowing_loan_position constants MAX_UINT256_eq)
  show ?thesis
    by (simp add: u overflowing_loan_position MAX_UINT256_eq)
qed

subsection \<open>When a borrow fails\<close>

text \<open>
  C3 (amended). \<open>borrow\<close> fails, with the state as before the call, exactly when,
  checked in this order: the amount is zero (InvalidAmount); the caller has no collateral
  (NoCollateral); the accrual panics, or \<open>collateral * 100\<close> or debt + amount does not
  fit in \<open>uint256\<close> (arithmetic panic); after accrual principal + accrued interest +
  amount exceeds floor(collateral * 100 / 150) (ExceedsCapacity); the contract's balance of
  loan tokens is below the amount (InsufficientReserve). Otherwise it succeeds: the
  principal grows by the amount, the accrual clock is the block timestamp, accrued interest
  is the accrued one, collateral is untouched, and (the caller not being the contract) the
  reserve shrinks by the amount, which the caller receives.
\<close>

theorem borrow_decision:
  "let p = userPositions s user;
       a = userPositions (snd (updateInterest user t s)) user;
       debt = loanAmount a + accumulatedInterest a;
       r = call (borrow user amount t) s;
       p' = userPositions (snd r) user
   in
     fst r =
       (if amount = 0 then Some InvalidAmount
        else if collateralAmount p = 0 then Some NoCollateral
        else if fst (updateInterest user t s) = Some Panic
                \<or> MAX_UINT256 < collateralAmount p * 100
                \<or> MAX_UINT256 < debt + amount then Some Panic
        else if collateralAmount p * 100 div 150 < debt + amount then Some ExceedsCapacity
        else if balanceOf (loanToken s) (self s) < amount then Some InsufficientReserve
        else None)
   \<and> (fst r \<noteq> None \<longrightarrow> snd r = s)
   \<and> (fst r = None \<longrightarrow>
         loanAmount p' = loanAmount p + amount
       \<and> lastInterestUpdate p' = t
       \<and> accumulatedInterest p' = accumulatedInterest a
       \<and> collateralAmount p' = collateralAmount p
       \<and> (user \<noteq> self s \<longrightarrow>
             balanceOf (loanToken (snd r)) (self s) = balanceOf (loanToken s) (self s) - amount
           \<and> balanceOf (loanToken (snd r)) user = balanceOf (loanToken s) user + amount))"
proof -
  consider (zero) "amount = 0"
    | (nocoll) "0 < amount" "collateralAmount (userPositions s user) = 0"
    | (panic) "0 < amount" "0 < collateralAmount (userPositions s user)"
        "fst (updateInterest user t s) \<noteq> None"
    | (accrued) "0 < amount" "0 < collateralAmount (userPositions s user)"
        "fst (updateInterest user t s) = None"
    by fastforce
  then show ?thesis
  proof cases
    case zero
    then show ?thesis by (simp add: call_def borrow_def)
  next
    case nocoll
    then show ?thesis by (simp add: call_def borrow_def)
  next
    case panic
    have "borrow user amount t s = (Some Panic, s)"
      using panic by (rule borrow_accrual_panics)
    moreover have "fst (updateInterest user t s) = Some Panic"
      using panic(3) updateInterest_revert [of user t s]
      by (cases "updateInterest user t s") auto
    ultimately show ?thesis using panic(1,2) by (simp add: call_def)
  next
    case accrued
    obtain s1 where u: "updateInterest user t s = (None, s1)"
      using accrued(3) by (cases "updateInterest user t s") auto
    note b = borrow_after_accrual [OF accrued(1,2) u]
    note f = updateInterest_frame [OF u]
    show ?thesis
      using accrued(1,2) f(6) [of user] f(7) [of user]
      by (simp add: call_def b u Let_def set_position_def move_balances f(4))
  qed
qed

theorem borrow_decision_witness:
  "fst (call (borrow 7 1000 2000) collateral_only) = Some ExceedsCapacity
   \<and> snd (call (borrow 7 1000 2000) collateral_only) = collateral_only
   \<and> fst (call (borrow 7 300 2000) collateral_only) = None
   \<and> loanAmount (userPositions (snd (call (borrow 7 300 2000) collateral_only)) 7) = 300
   \<and> lastInterestUpdate (userPositions (snd (call (borrow 7 300 2000) collateral_only)) 7)
       = 2000
   \<and> balanceOf (loanToken (snd (call (borrow 7 300 2000) collateral_only))) 100 = 99700
   \<and> balanceOf (loanToken (snd (call (borrow 7 300 2000) collateral_only))) 7 = 10300"
proof -
  have p: "userPositions collateral_only 7 =
      \<lparr>collateralAmount = 500, loanAmount = 0, lastInterestUpdate = 0,
       accumulatedInterest = 0\<rparr>"
    by (simp add: collateral_only_def fixture_def)
  have u: "updateInterest 7 2000 collateral_only = (None, collateral_only)"
    by (simp add: updateInterest_def Let_def p)
  have t: "loanToken collateral_only = fixture_loan" "self collateral_only = 100"
    by (simp_all add: collateral_only_def fixture_def)
  have l: "balanceOf fixture_loan 100 = 100000" "balanceOf fixture_loan 7 = 10000"
    by (simp_all add: fixture_loan_def)
  have a: "fst (call (borrow 7 1000 2000) collateral_only) = Some ExceedsCapacity
           \<and> snd (call (borrow 7 1000 2000) collateral_only) = collateral_only"
    using borrow_decision [of collateral_only 7 2000 1000]
    by (simp add: Let_def p u t l MAX_UINT256_eq)
  have b: "fst (call (borrow 7 300 2000) collateral_only) = None"
    using borrow_decision [of collateral_only 7 2000 300]
    by (simp add: Let_def p u t l MAX_UINT256_eq)
  show ?thesis
    using a b borrow_decision [of collateral_only 7 2000 300]
    by (simp add: Let_def p u t l)
qed

text \<open>
  Without the panic the decision list is not exact: with collateral \<open>2 ^ 255\<close>, no debt
  and a funded reserve, borrowing \<open>1\<close> meets none of the four conditions, and the call
  still reverts, on the checked multiplication \<open>collateralAmount * PRECISION\<close>.
\<close>

theorem borrow_overflow_counterexample:
  "\<not> (1::nat) \<le> 0
   \<and> collateralAmount (userPositions huge_collateral 7) \<noteq> 0
   \<and> \<not> collateralAmount (userPositions huge_collateral 7) * 100 div 150
         < loanAmount (userPositions (snd (updateInterest 7 2000 huge_collateral)) 7)
           + accumulatedInterest (userPositions (snd (updateInterest 7 2000 huge_collateral)) 7)
           + 1
   \<and> \<not> balanceOf (loanToken huge_collateral) (self huge_collateral) < 1
   \<and> fst (call (borrow 7 1 2000) huge_collateral) = Some Panic"
  by (simp add: call_def borrow_def updateInterest_def Let_def huge_collateral_def fixture_def
      fixture_loan_def constants MAX_UINT256_eq)

subsection \<open>Repayment\<close>

text \<open>
  C4. When the principal is positive and \<open>repay\<close> succeeds, the total debt (principal
  plus accrued interest, both after the accrual at the block timestamp) moves from the
  caller's loan-token balance to the contract's, so the reserve grows by it, and the
  position is left with principal, accrued interest and accrual clock all zero and its
  collateral as before. When the principal is zero, \<open>repay\<close> fails with NoActiveLoan.
  The caller is an account other than the contract, which never calls itself.
\<close>

theorem repay_settles:
  "let p = userPositions s user;
       a = userPositions (snd (updateInterest user t s)) user;
       totalDebt = loanAmount a + accumulatedInterest a;
       r = call (repay user t) s;
       p' = userPositions (snd r) user
   in
     (0 < loanAmount p \<and> fst r = None \<and> user \<noteq> self s \<longrightarrow>
          totalDebt \<le> balanceOf (loanToken s) user
        \<and> balanceOf (loanToken (snd r)) user = balanceOf (loanToken s) user - totalDebt
        \<and> balanceOf (loanToken (snd r)) (self s) = balanceOf (loanToken s) (self s) + totalDebt
        \<and> loanAmount p' = 0
        \<and> accumulatedInterest p' = 0
        \<and> lastInterestUpdate p' = 0
        \<and> collateralAmount p' = collateralAmount p)
   \<and> (loanAmount p = 0 \<longrightarrow> r = (Some NoActiveLoan, s))"
proof -
  have none: "loanAmount (userPositions s user) = 0
      \<Longrightarrow> call (repay user t) s = (Some NoActiveLoan, s)"
    by (simp add: call_def repay_def)
  have some: "balanceOf (loanToken s) user
          \<ge> loanAmount (userPositions (snd (updateInterest user t s)) user)
            + accumulatedInterest (userPositions (snd (updateInterest user t s)) user)
      \<and> balanceOf (loanToken (snd (call (repay user t) s))) user
          = balanceOf (loanToken s) user
            - (loanAmount (userPositions (snd (updateInterest user t s)) user)
               + accumulatedInterest (userPositions (snd (updateInterest user t s)) user))
      \<and> balanceOf (loanToken (snd (call (repay user t) s))) (self s)
          = balanceOf (loanToken s) (self s)
            + (loanAmount (userPositions (snd (updateInterest user t s)) user)
               + accumulatedInterest (userPositions (snd (updateInterest user t s)) user))
      \<and> loanAmount (userPositions (snd (call (repay user t) s)) user) = 0
      \<and> accumulatedInterest (userPositions (snd (call (repay user t) s)) user) = 0
      \<and> lastInterestUpdate (userPositions (snd (call (repay user t) s)) user) = 0
      \<and> collateralAmount (userPositions (snd (call (repay user t) s)) user)
          = collateralAmount (userPositions s user)"
    if ok: "fst (call (repay user t) s) = None" and ne: "user \<noteq> self s"
  proof -
    from ok have "repay user t s = (None, snd (call (repay user t) s))"
      by (metis call_None prod.collapse)
    then obtain s1 tok where
      u: "updateInterest user t s = (None, s1)" and
      tr: "transferFrom (loanToken s) (self s) user (self s)
            (loanAmount (userPositions s1 user) + accumulatedInterest (userPositions s1 user))
            = Some tok" and
      s': "snd (call (repay user t) s) = set_position (s1\<lparr>loanToken := tok\<rparr>) user
            ((userPositions s1 user)
               \<lparr>loanAmount := 0, accumulatedInterest := 0, lastInterestUpdate := 0\<rparr>)"
      by (rule repay_success)
    note f = updateInterest_frame [OF u]
    from transferFrom_Some [OF tr] ne f(6) [of user] show ?thesis
      by (simp add: s' u set_position_def move_balances)
  qed
  show ?thesis
    unfolding Let_def using none some by blast
qed

theorem repay_settles_witness:
  "0 < loanAmount (userPositions active_loan 7)
   \<and> fst (call (repay 7 605800) active_loan) = None
   \<and> 7 \<noteq> self active_loan
   \<and> loanAmount (userPositions (snd (updateInterest 7 605800 active_loan)) 7)
       + accumulatedInterest (userPositions (snd (updateInterest 7 605800 active_loan)) 7)
       = 1050
   \<and> balanceOf (loanToken active_loan) 7 = 10000
   \<and> balanceOf (loanToken (snd (call (repay 7 605800) active_loan))) 7 = 8950
   \<and> balanceOf (loanToken active_loan) 100 = 100000
   \<and> balanceOf (loanToken (snd (call (repay 7 605800) active_loan))) 100 = 101050
   \<and> loanAmount (userPositions (snd (call (repay 7 605800) active_loan)) 7) = 0
   \<and> accumulatedInterest (userPositions (snd (call (repay 7 605800) active_loan)) 7) = 0
   \<and> lastInterestUpdate (userPositions (snd (call (repay 7 605800) active_loan)) 7) = 0
   \<and> collateralAmount (userPositions (snd (call (repay 7 605800) active_loan)) 7) = 1500
   \<and> call (repay 7 2000) collateral_only = (Some NoActiveLoan, collateral_only)"
proof -
  have p: "userPositions active_loan 7 =
      \<lparr>collateralAmount = 1500, loanAmount = 1000, lastInterestUpdate = 1000,
       accumulatedInterest = 0\<rparr>"
    "self active_loan = 100" "loanToken active_loan = fixture_loan"
    by (simp_all add: active_loan_def fixture_def)
  have q: "loanAmount (userPositions collateral_only 7) = 0"
    by (simp add: collateral_only_def fixture_def)
  have l: "balanceOf fixture_loan 100 = 100000" "balanceOf fixture_loan 7 = 10000"
    by (simp_all add: fixture_loan_def)
  have u: "userPositions (snd (updateInterest 7 605800 active_loan)) 7 =
      \<lparr>collateralAmount = 1500, loanAmount = 1000, lastInterestUpdate = 605800,
       accumulatedInterest = 50\<rparr>"
    by (simp add: updateInterest_def Let_def p set_position_def constants MAX_UINT256_eq)
  have ok: "fst (call (repay 7 605800) active_loan) = None"
    by (simp add: eval_defs active_loan_def)
  show ?thesis
    using repay_settles [of active_loan 7 605800] repay_settles [of collateral_only 7 2000]
    by (simp add: Let_def p q l u ok)
qed

subsection \<open>Failed calls\<close>

text \<open>
  C5. A call of \<open>depositCollateral\<close>, \<open>borrow\<close>, \<open>repay\<close> or
  \<open>withdrawCollateral\<close> that fails leaves the whole state (every position, both
  tokens) as it was before the call. In particular \<open>withdrawCollateral\<close> with
  collateral and an active loan always fails, with ActiveDebt or an arithmetic panic, and
  what \<open>_updateInterest\<close> wrote before the failing check is not kept.
\<close>

theorem failed_call_restores_state:
  "(fst (call (depositCollateral user amount) s) \<noteq> None
      \<longrightarrow> snd (call (depositCollateral user amount) s) = s)
   \<and> (fst (call (borrow user amount t) s) \<noteq> None
      \<longrightarrow> snd (call (borrow user amount t) s) = s)
   \<and> (fst (call (repay user t) s) \<noteq> None
      \<longrightarrow> snd (call (repay user t) s) = s)
   \<and> (fst (call (withdrawCollateral user t) s) \<noteq> None
      \<longrightarrow> snd (call (withdrawCollateral user t) s) = s)
   \<and> (0 < collateralAmount (userPositions s user) \<and> 0 < loanAmount (userPositions s user)
      \<longrightarrow> (fst (call (withdrawCollateral user t) s) = Some ActiveDebt
           \<or> fst (call (withdrawCollateral user t) s) = Some Panic)
        \<and> snd (call (withdrawCollateral user t) s) = s)"
proof -
  have w: "fst (call (withdrawCollateral user t) s) = Some ActiveDebt
         \<or> fst (call (withdrawCollateral user t) s) = Some Panic"
    if c: "0 < collateralAmount (userPositions s user)"
      and l: "0 < loanAmount (userPositions s user)"
  proof -
    obtain r s1 where u: "updateInterest user t s = (r, s1)"
      by (cases "updateInterest user t s") auto
    note f = updateInterest_frame(7) [OF u, of user]
    show ?thesis
    proof (cases r)
      case None
      with c l f show ?thesis
        by (simp add: fst_call withdrawCollateral_def u Let_def)
    next
      case (Some e)
      with u have "e = Panic" by (simp add: updateInterest_revert)
      with c l Some show ?thesis
        by (simp add: fst_call withdrawCollateral_def u)
    qed
  qed
  then have "0 < collateralAmount (userPositions s user) \<and> 0 < loanAmount (userPositions s user)
      \<longrightarrow> (fst (call (withdrawCollateral user t) s) = Some ActiveDebt
           \<or> fst (call (withdrawCollateral user t) s) = Some Panic)
        \<and> snd (call (withdrawCollateral user t) s) = s"
    using call_revert [of "withdrawCollateral user t" s] by auto
  then show ?thesis
    using call_revert [of "depositCollateral user amount" s]
      call_revert [of "borrow user amount t" s]
      call_revert [of "repay user t" s]
      call_revert [of "withdrawCollateral user t" s]
    by blast
qed

theorem failed_call_restores_state_witness:
  "0 < collateralAmount (userPositions active_loan 7)
   \<and> 0 < loanAmount (userPositions active_loan 7)
   \<and> accumulatedInterest (userPositions (snd (withdrawCollateral 7 605800 active_loan)) 7) = 50
   \<and> lastInterestUpdate (userPositions (snd (withdrawCollateral 7 605800 active_loan)) 7)
       = 605800
   \<and> fst (call (withdrawCollateral 7 605800) active_loan) = Some ActiveDebt
   \<and> snd (call (withdrawCollateral 7 605800) active_loan) = active_loan
   \<and> accumulatedInterest (userPositions (snd (call (withdrawCollateral 7 605800) active_loan)) 7)
       = 0
   \<and> lastInterestUpdate (userPositions (snd (call (withdrawCollateral 7 605800) active_loan)) 7)
       = 1000"
proof -
  have p: "userPositions active_loan 7 =
      \<lparr>collateralAmount = 1500, loanAmount = 1000, lastInterestUpdate = 1000,
       accumulatedInterest = 0\<rparr>"
    by (simp add: active_loan_def fixture_def)
  have body: "withdrawCollateral 7 605800 active_loan =
      (Some ActiveDebt, set_position active_loan 7
         \<lparr>collateralAmount = 1500, loanAmount = 1000, lastInterestUpdate = 605800,
          accumulatedInterest = 50\<rparr>)"
    by (simp add: withdrawCollateral_def updateInterest_def Let_def p set_position_def
        constants MAX_UINT256_eq)
  have e: "fst (call (withdrawCollateral 7 605800) active_loan) = Some ActiveDebt"
    by (simp add: fst_call body)
  have "snd (call (withdrawCollateral 7 605800) active_loan) = active_loan"
    using failed_call_restores_state [of 7 0 active_loan 605800] by (simp add: e)
  then show ?thesis
    by (simp add: e p body set_position_def)
qed

subsection \<open>No principal, no interest\<close>

lemma updateInterest_settled:
  assumes "\<forall>u. settled (userPositions s u)"
  shows "settled (userPositions (snd (updateInterest user t s)) u)"
  using assms
  by (auto simp: updateInterest_def Let_def set_position_def settled_def)

lemma depositCollateral_settled:
  assumes "\<forall>u. settled (userPositions s u)"
    and "depositCollateral user amount s = (None, s')"
  shows "settled (userPositions s' u)"
proof -
  from assms(2) obtain tok where
    "s' = set_position (s\<lparr>collateralToken := tok\<rparr>) user
            ((userPositions s user)
               \<lparr>collateralAmount := collateralAmount (userPositions s user) + amount\<rparr>)"
    by (rule depositCollateral_success)
  with assms(1) show ?thesis
    by (auto simp: set_position_def settled_def)
qed

lemma borrow_settled:
  assumes "\<forall>u. settled (userPositions s u)"
    and b: "borrow user amount t s = (None, s')"
  shows "settled (userPositions s' u)"
proof -
  from b have a: "0 < amount" and c: "0 < collateralAmount (userPositions s user)"
    by (auto simp: borrow_def split: if_splits)
  obtain r s1 where u: "updateInterest user t s = (r, s1)"
    by (cases "updateInterest user t s") auto
  from b a c u have r: "r = None"
    by (cases r) (auto simp: borrow_def)
  have s1: "settled (userPositions s1 u)"
    using updateInterest_settled [OF assms(1), of user t u] by (simp add: u)
  from b a s1 show ?thesis
    unfolding borrow_after_accrual [OF a c u [unfolded r]]
    by (auto simp: Let_def set_position_def settled_def split: if_splits)
qed

lemma repay_settled:
  assumes "\<forall>u. settled (userPositions s u)"
    and b: "repay user t s = (None, s')"
  shows "settled (userPositions s' u)"
proof -
  from b obtain s1 tok where
    u: "updateInterest user t s = (None, s1)" and
    s': "s' = set_position (s1\<lparr>loanToken := tok\<rparr>) user
            ((userPositions s1 user)
               \<lparr>loanAmount := 0, accumulatedInterest := 0, lastInterestUpdate := 0\<rparr>)"
    by (rule repay_success)
  have "settled (userPositions s1 u)"
    using updateInterest_settled [OF assms(1), of user t u] by (simp add: u)
  then show ?thesis
    by (auto simp: s' set_position_def settled_def)
qed

lemma withdrawCollateral_settled:
  assumes "\<forall>u. settled (userPositions s u)"
    and b: "withdrawCollateral user t s = (None, s')"
  shows "settled (userPositions s' u)"
proof -
  from b obtain s1 tok where
    u: "(if 0 < loanAmount (userPositions s user) then updateInterest user t s else (None, s))
          = (None, s1)" and
    s': "s' = (set_position s1 user ((userPositions s1 user)\<lparr>collateralAmount := 0\<rparr>))
            \<lparr>collateralToken := tok\<rparr>"
    by (rule withdrawCollateral_success)
  have "settled (userPositions s1 u)"
  proof (cases "0 < loanAmount (userPositions s user)")
    case True
    with u show ?thesis
      using updateInterest_settled [OF assms(1), of user t u] by simp
  next
    case False
    with u assms(1) show ?thesis by simp
  qed
  then show ?thesis
    by (auto simp: s' set_position_def settled_def)
qed

lemma call_settled:
  assumes "\<forall>u. settled (userPositions s u)"
    and "\<And>s'. body s = (None, s') \<Longrightarrow> \<forall>u. settled (userPositions s' u)"
  shows "settled (userPositions (snd (call body s)) u)"
  using assms
  by (cases "body s") (auto simp: call_def split: option.splits)

lemma exec_settled:
  assumes "\<forall>u. settled (userPositions s u)"
  shows "settled (userPositions (snd (exec sender t operation s)) u)"
proof (cases operation)
  case (DepositCollateral amount)
  show ?thesis unfolding DepositCollateral exec.simps
    using assms depositCollateral_settled [OF assms] by (intro call_settled) blast+
next
  case (Borrow amount)
  show ?thesis unfolding Borrow exec.simps
    using assms borrow_settled [OF assms] by (intro call_settled) blast+
next
  case Repay
  show ?thesis unfolding Repay exec.simps
    using assms repay_settled [OF assms] by (intro call_settled) blast+
next
  case WithdrawCollateral
  show ?thesis unfolding WithdrawCollateral exec.simps
    using assms withdrawCollateral_settled [OF assms] by (intro call_settled) blast+
next
  case (FundContract amount)
  with assms show ?thesis by (simp add: owner_operations_positions)
next
  case (WithdrawExcess amount)
  with assms show ?thesis by (simp add: owner_operations_positions)
next
  case (TokenActivity c l)
  with assms show ?thesis by simp
qed

lemma run_settled:
  "\<forall>u. settled (userPositions s u) \<Longrightarrow> settled (userPositions (run txs s) u)"
proof (induction txs arbitrary: s)
  case Nil
  then show ?case by simp
next
  case (Cons tx txs)
  obtain sender t operation where tx: "tx = (sender, t, operation)"
    by (cases tx) auto
  have "\<forall>u. settled (userPositions (snd (exec sender t operation s)) u)"
    using exec_settled [OF Cons.prems] by blast
  then show ?case
    unfolding tx run.simps by (rule Cons.IH)
qed

text \<open>
  C6. In every state reached from the deployed contract (every position zero) by any
  sequence of transactions, at any timestamps, a position with no principal has no accrued
  interest and an unset accrual clock; and every transaction, failed or not, preserves
  this for all positions.
\<close>

theorem settled_invariant:
  "settled (userPositions (run txs (deployed c l initialOwner this)) u)
   \<and> ((\<forall>v. settled (userPositions s v))
        \<longrightarrow> (\<forall>v. settled (userPositions (snd (exec sender t operation s)) v)))"
proof -
  have "\<forall>v. settled (userPositions (deployed c l initialOwner this) v)"
    by (simp add: deployed_def zero_position_def settled_def)
  then have "settled (userPositions (run txs (deployed c l initialOwner this)) u)"
    by (rule run_settled)
  then show ?thesis
    using exec_settled by blast
qed

theorem settled_invariant_witness:
  "loanAmount (userPositions
      (run [(7, 1000, DepositCollateral 1500), (7, 1000, Borrow 1000), (7, 605800, Repay)]
         (deployed fixture_collateral fixture_loan 0 100)) 7) = 0
   \<and> collateralAmount (userPositions
      (run [(7, 1000, DepositCollateral 1500), (7, 1000, Borrow 1000), (7, 605800, Repay)]
         (deployed fixture_collateral fixture_loan 0 100)) 7) = 1500
   \<and> balanceOf (loanToken
      (run [(7, 1000, DepositCollateral 1500), (7, 1000, Borrow 1000), (7, 605800, Repay)]
         (deployed fixture_collateral fixture_loan 0 100))) 100 = 100050
   \<and> accumulatedInterest (userPositions
      (run [(7, 1000, DepositCollateral 1500), (7, 1000, Borrow 1000), (7, 605800, Repay)]
         (deployed fixture_collateral fixture_loan 0 100)) 7) = 0
   \<and> lastInterestUpdate (userPositions
      (run [(7, 1000, DepositCollateral 1500), (7, 1000, Borrow 1000), (7, 605800, Repay)]
         (deployed fixture_collateral fixture_loan 0 100)) 7) = 0"
proof -
  let ?s = "run [(7, 1000, DepositCollateral 1500), (7, 1000, Borrow 1000), (7, 605800, Repay)]
         (deployed fixture_collateral fixture_loan 0 100)"
  have l: "loanAmount (userPositions ?s 7) = 0"
    by (simp add: eval_defs deployed_def)
  have c: "collateralAmount (userPositions ?s 7) = 1500"
    by (simp add: eval_defs deployed_def)
  have b: "balanceOf (loanToken ?s) 100 = 100050"
    by (simp add: eval_defs deployed_def)
  have "settled (userPositions ?s 7)"
    using settled_invariant
      [of "[(7, 1000, DepositCollateral 1500), (7, 1000, Borrow 1000), (7, 605800, Repay)]"
        fixture_collateral fixture_loan 0 100 7]
    by simp
  with l c b show ?thesis
    by (simp add: settled_def)
qed

subsection \<open>The view and the update agree\<close>

text \<open>
  C7. \<open>getUserData\<close>, a view, returns the stored collateral and principal, and the
  interest that \<open>_updateInterest\<close> would store for the same position at the same
  block timestamp; it reverts exactly when \<open>_updateInterest\<close> does, with the same
  error.
\<close>

theorem getUserData_agrees_with_updateInterest:
  "getUserData s user t =
     (case updateInterest user t s of
        (None, s') \<Rightarrow>
          Inr (collateralAmount (userPositions s user), loanAmount (userPositions s user),
               accumulatedInterest (userPositions s' user))
      | (Some e, s') \<Rightarrow> Inl e)"
  by (simp add: getUserData_def updateInterest_def Let_def set_position_def)

theorem getUserData_agrees_with_updateInterest_witness:
  "fst (updateInterest 7 605800 active_loan) = None
   \<and> accumulatedInterest (userPositions (snd (updateInterest 7 605800 active_loan)) 7) = 50
   \<and> getUserData active_loan 7 605800 = Inr (1500, 1000, 50)
   \<and> accumulatedInterest (userPositions active_loan 7) = 0
   \<and> updateInterest 7 999 active_loan = (Some Panic, active_loan)
   \<and> getUserData active_loan 7 999 = Inl Panic"
proof -
  have p: "userPositions active_loan 7 =
      \<lparr>collateralAmount = 1500, loanAmount = 1000, lastInterestUpdate = 1000,
       accumulatedInterest = 0\<rparr>"
    by (simp add: active_loan_def fixture_def)
  have u: "updateInterest 7 605800 active_loan =
      (None, set_position active_loan 7
         \<lparr>collateralAmount = 1500, loanAmount = 1000, lastInterestUpdate = 605800,
          accumulatedInterest = 50\<rparr>)"
    by (simp add: updateInterest_def Let_def p constants MAX_UINT256_eq)
  have v: "updateInterest 7 999 active_loan = (Some Panic, active_loan)"
    by (simp add: updateInterest_def Let_def p)
  have g: "getUserData active_loan 7 605800 = Inr (1500, 1000, 50)"
    using getUserData_agrees_with_updateInterest [of active_loan 7 605800]
    by (simp add: u p set_position_def)
  have h: "getUserData active_loan 7 999 = Inl Panic"
    using getUserData_agrees_with_updateInterest [of active_loan 7 999]
    by (simp add: v)
  show ?thesis
    by (simp add: u v g h p set_position_def)
qed

subsection \<open>Deposit, then withdraw\<close>




subsection \<open>The owner's operations\<close>

text \<open>
  C9. \<open>fundContract\<close> and \<open>withdrawExcess\<close>, whatever the amount and whether they
  succeed or fail, leave every position and the collateral token as they were, and in the
  loan token touch no balance but the caller's and the contract's. \<open>withdrawExcess\<close>
  checks nothing about surplus or outstanding loans: called by the owner with an amount
  up to the whole reserve it succeeds and takes the amount out of the reserve.
\<close>

theorem owner_operations_frame:
  "userPositions (snd (call (fundContract sender amount) s)) = userPositions s
   \<and> collateralToken (snd (call (fundContract sender amount) s)) = collateralToken s
   \<and> (v \<noteq> sender \<and> v \<noteq> self s \<longrightarrow>
        balanceOf (loanToken (snd (call (fundContract sender amount) s))) v
          = balanceOf (loanToken s) v)
   \<and> userPositions (snd (call (withdrawExcess sender amount) s)) = userPositions s
   \<and> collateralToken (snd (call (withdrawExcess sender amount) s)) = collateralToken s
   \<and> (v \<noteq> sender \<and> v \<noteq> self s \<longrightarrow>
        balanceOf (loanToken (snd (call (withdrawExcess sender amount) s))) v
          = balanceOf (loanToken s) v)
   \<and> (sender = owner s \<and> amount \<le> balanceOf (loanToken s) (self s) \<longrightarrow>
        fst (call (withdrawExcess sender amount) s) = None
      \<and> (sender \<noteq> self s \<longrightarrow>
            balanceOf (loanToken (snd (call (withdrawExcess sender amount) s))) (self s)
              = balanceOf (loanToken s) (self s) - amount
          \<and> balanceOf (loanToken (snd (call (withdrawExcess sender amount) s))) sender
              = balanceOf (loanToken s) sender + amount))"
proof -
  have f: "userPositions (snd (call (fundContract sender amount) s)) = userPositions s
      \<and> collateralToken (snd (call (fundContract sender amount) s)) = collateralToken s"
    by (simp add: call_def fundContract_def split: option.splits)
  have fb: "balanceOf (loanToken (snd (call (fundContract sender amount) s))) v
          = balanceOf (loanToken s) v" if "v \<noteq> sender" "v \<noteq> self s"
    using that
    by (auto simp: call_def fundContract_def move_balances
        dest!: transferFrom_Some split: option.splits)
  have w: "userPositions (snd (call (withdrawExcess sender amount) s)) = userPositions s
      \<and> collateralToken (snd (call (withdrawExcess sender amount) s)) = collateralToken s"
    by (simp add: call_def withdrawExcess_def split: option.splits)
  have wb: "balanceOf (loanToken (snd (call (withdrawExcess sender amount) s))) v
          = balanceOf (loanToken s) v" if "v \<noteq> sender" "v \<noteq> self s"
    using that
    by (auto simp: call_def withdrawExcess_def move_balances
        dest!: transfer_Some split: option.splits)
  have ok: "fst (call (withdrawExcess sender amount) s) = None
      \<and> (sender \<noteq> self s \<longrightarrow>
            balanceOf (loanToken (snd (call (withdrawExcess sender amount) s))) (self s)
              = balanceOf (loanToken s) (self s) - amount
          \<and> balanceOf (loanToken (snd (call (withdrawExcess sender amount) s))) sender
              = balanceOf (loanToken s) sender + amount)"
    if "sender = owner s" "amount \<le> balanceOf (loanToken s) (self s)"
    using that
    by (simp add: call_def withdrawExcess_def transfer_def move_balances)
  show ?thesis
    using f w ok by (simp add: fb wb)
qed

theorem owner_operations_frame_witness:
  "0 < loanAmount (userPositions active_loan 7)
   \<and> 0 = owner active_loan
   \<and> balanceOf (loanToken active_loan) (self active_loan) = 100000
   \<and> 0 \<noteq> self active_loan
   \<and> fst (call (withdrawExcess 0 100000) active_loan) = None
   \<and> balanceOf (loanToken (snd (call (withdrawExcess 0 100000) active_loan))) 100 = 0
   \<and> balanceOf (loanToken (snd (call (withdrawExcess 0 100000) active_loan))) 0 = 105000
   \<and> balanceOf (loanToken (snd (call (withdrawExcess 0 100000) active_loan))) 7 = 10000
   \<and> userPositions (snd (call (withdrawExcess 0 100000) active_loan)) 7
       = userPositions active_loan 7
   \<and> balanceOf (collateralToken (snd (call (withdrawExcess 0 100000) active_loan))) 100 = 1500
   \<and> balanceOf (loanToken (snd (call (fundContract 0 5000) active_loan))) 7 = 10000
   \<and> userPositions (snd (call (fundContract 0 5000) active_loan)) 7
       = userPositions active_loan 7
   \<and> balanceOf (collateralToken (snd (call (fundContract 0 5000) active_loan))) 100 = 1500"
proof -
  have p: "owner active_loan = 0" "self active_loan = 100"
    "loanToken active_loan = fixture_loan" "collateralToken active_loan = fixture_collateral"
    "0 < loanAmount (userPositions active_loan 7)"
    by (simp_all add: active_loan_def fixture_def)
  have l: "balanceOf fixture_loan 100 = 100000" "balanceOf fixture_loan 7 = 10000"
    "balanceOf fixture_loan 0 = 5000" "balanceOf fixture_collateral 100 = 1500"
    by (simp_all add: fixture_loan_def fixture_collateral_def)
  show ?thesis
    using owner_operations_frame [of 0 100000 active_loan 7]
      owner_operations_frame [of 0 5000 active_loan 7]
    by (simp add: p l)
qed

subsection \<open>Splitting an accrual\<close>

lemma div_superadditive:
  fixes a b c :: nat
  shows "a div c + b div c \<le> (a + b) div c"
  by (subst div_add1_eq [of a b c]) (rule le_add1)

lemma interest_superadditive:
  fixes P k1 k2 :: nat
  shows "P * 5 * k1 div 100 + P * 5 * k2 div 100 \<le> P * 5 * (k1 + k2) div 100"
proof -
  have "P * 5 * (k1 + k2) = P * 5 * k1 + P * 5 * k2"
    by (rule distrib_left)
  then show ?thesis
    using div_superadditive [of "P * 5 * k1" 100 "P * 5 * k2"] by simp
qed

lemma split_bounds:
  fixes P A k1 k2 M :: nat
  assumes b1: "P * 5 * (k1 + k2) \<le> M" and b2: "A + P * 5 * (k1 + k2) div 100 \<le> M"
  shows "P * 5 * k1 \<le> M" and "P * 5 * k2 \<le> M"
    and "A + P * 5 * k1 div 100 \<le> M"
    and "A + P * 5 * k1 div 100 + P * 5 * k2 div 100 \<le> M"
proof -
  have m1: "P * 5 * k1 \<le> P * 5 * (k1 + k2)" by (rule mult_le_mono2) simp
  have m2: "P * 5 * k2 \<le> P * 5 * (k1 + k2)" by (rule mult_le_mono2) simp
  show "P * 5 * k1 \<le> M" using m1 b1 by (rule le_trans)
  show "P * 5 * k2 \<le> M" using m2 b1 by (rule le_trans)
  have d1: "P * 5 * k1 div 100 \<le> P * 5 * (k1 + k2) div 100"
    using m1 by (rule div_le_mono)
  show "A + P * 5 * k1 div 100 \<le> M"
    by (rule le_trans [OF add_left_mono [OF d1] b2])
  have "A + P * 5 * k1 div 100 + P * 5 * k2 div 100
      = A + (P * 5 * k1 div 100 + P * 5 * k2 div 100)"
    by (rule add.assoc)
  also have "\<dots> \<le> A + P * 5 * (k1 + k2) div 100"
    by (rule add_left_mono [OF interest_superadditive])
  finally show "A + P * 5 * k1 div 100 + P * 5 * k2 div 100 \<le> M"
    using b2 by (rule le_trans)
qed

lemma weeks_elapsed:
  fixes L k :: nat
  shows "(L + k * 604800 - L) div 604800 = k"
    and "L \<le> L + k * 604800"
  by simp_all

lemma weeks_elapsed2:
  fixes L k1 k2 :: nat
  shows "L + k1 * 604800 + k2 * 604800 = L + (k1 + k2) * 604800"
  by (simp add: distrib_right)

lemma interest_split_strict:
  fixes P :: nat
  assumes "P * 5 mod 100 \<noteq> 0"
  shows "P * 5 * 1 div 100 + P * 5 * 19 div 100 < P * 5 * (1 + 19) div 100"
proof -
  define x where "x = P * 5 div 100"
  define y where "y = P * 95 div 100"
  define m where "m = P * 5 mod 100"
  have 1: "x * 100 + m = P * 5"
    unfolding x_def m_def by (rule div_mult_mod_eq)
  have 2: "y * 100 \<le> P * 95"
    unfolding y_def by (rule div_times_less_eq_dividend)
  have 3: "0 < m" using assms by (simp add: m_def)
  have "x + y < P" using 1 2 3 by linarith
  moreover have "P * 5 * (1 + 19) div 100 = P" by simp
  moreover have "P * 5 * 1 div 100 = x" by (simp add: x_def)
  moreover have "P * 5 * 19 div 100 = y" by (simp add: y_def)
  ultimately show ?thesis by simp
qed

lemma updateInterest_after_weeks:
  assumes p: "userPositions s user = p"
    and l: "0 < loanAmount p" and c: "0 < lastInterestUpdate p" and k: "0 < k"
    and t: "t = lastInterestUpdate p + k * 604800"
    and b1: "loanAmount p * 5 * k \<le> MAX_UINT256"
    and b2: "accumulatedInterest p + loanAmount p * 5 * k div 100 \<le> MAX_UINT256"
  shows "updateInterest user t s =
           (None, set_position s user
              (p\<lparr>accumulatedInterest := accumulatedInterest p + loanAmount p * 5 * k div 100,
                 lastInterestUpdate := t\<rparr>))"
proof -
  have w: "(t - lastInterestUpdate (userPositions s user)) div 604800 = k"
    unfolding p t by (rule weeks_elapsed(1))
  have le: "lastInterestUpdate (userPositions s user) \<le> t"
    unfolding p t by (rule weeks_elapsed(2))
  show ?thesis
    using updateInterest_accrues [of s user t, unfolded w, OF _ _ le k]
      l c b1 b2 unfolding p by blast
qed

lemma updateInterest_after_weeks_bounds:
  assumes p: "userPositions s user = p"
    and l: "0 < loanAmount p" and c: "0 < lastInterestUpdate p" and k: "0 < k"
    and ok: "fst (updateInterest user (lastInterestUpdate p + k * 604800) s) = None"
  shows "loanAmount p * 5 * k \<le> MAX_UINT256"
    and "accumulatedInterest p + loanAmount p * 5 * k div 100 \<le> MAX_UINT256"
proof -
  let ?t = "lastInterestUpdate p + k * 604800"
  have w: "(?t - lastInterestUpdate (userPositions s user)) div 604800 = k"
    unfolding p by (rule weeks_elapsed(1))
  have n: "\<not> (?t < lastInterestUpdate (userPositions s user)
      \<or> 0 < k \<and> (MAX_UINT256 < loanAmount (userPositions s user) * 5 * k
          \<or> MAX_UINT256 < accumulatedInterest (userPositions s user)
                + loanAmount (userPositions s user) * 5 * k div 100))"
  proof
    assume a: "?t < lastInterestUpdate (userPositions s user)
      \<or> 0 < k \<and> (MAX_UINT256 < loanAmount (userPositions s user) * 5 * k
          \<or> MAX_UINT256 < accumulatedInterest (userPositions s user)
                + loanAmount (userPositions s user) * 5 * k div 100)"
    have "updateInterest user ?t s = (Some Panic, s)"
      using updateInterest_panics [of s user ?t, unfolded w] l c a unfolding p by blast
    with ok show False by simp
  qed
  from n k show "loanAmount p * 5 * k \<le> MAX_UINT256"
    unfolding p by (simp add: not_less)
  from n k show "accumulatedInterest p + loanAmount p * 5 * k div 100 \<le> MAX_UINT256"
    unfolding p by (simp add: not_less)
qed

lemma split_accrual:
  assumes p: "userPositions s user = p"
    and l: "0 < loanAmount p" and c: "0 < lastInterestUpdate p"
    and k1: "0 < k1" and k2: "0 < k2"
    and once: "fst (updateInterest user
                 (lastInterestUpdate p + k1 * 604800 + k2 * 604800) s) = None"
  shows "updateInterest user (lastInterestUpdate p + k1 * 604800 + k2 * 604800) s =
           (None, set_position s user
              (p\<lparr>accumulatedInterest :=
                   accumulatedInterest p + loanAmount p * 5 * (k1 + k2) div 100,
                 lastInterestUpdate := lastInterestUpdate p + k1 * 604800 + k2 * 604800\<rparr>))"
    and "updateInterest user (lastInterestUpdate p + k1 * 604800) s =
           (None, set_position s user
              (p\<lparr>accumulatedInterest := accumulatedInterest p + loanAmount p * 5 * k1 div 100,
                 lastInterestUpdate := lastInterestUpdate p + k1 * 604800\<rparr>))"
    and "updateInterest user (lastInterestUpdate p + k1 * 604800 + k2 * 604800)
           (set_position s user
              (p\<lparr>accumulatedInterest := accumulatedInterest p + loanAmount p * 5 * k1 div 100,
                 lastInterestUpdate := lastInterestUpdate p + k1 * 604800\<rparr>)) =
           (None, set_position s user
              (p\<lparr>accumulatedInterest :=
                   accumulatedInterest p + loanAmount p * 5 * k1 div 100
                     + loanAmount p * 5 * k2 div 100,
                 lastInterestUpdate := lastInterestUpdate p + k1 * 604800 + k2 * 604800\<rparr>))"
proof -
  let ?L = "lastInterestUpdate p"
  let ?P = "loanAmount p"
  let ?A = "accumulatedInterest p"
  have k12: "0 < k1 + k2" using k1 by simp
  note t2 = weeks_elapsed2 [of ?L k1 k2]
  have once': "fst (updateInterest user (?L + (k1 + k2) * 604800) s) = None"
    using once unfolding t2 .
  note b = updateInterest_after_weeks_bounds [OF p l c k12 once']
  note sb = split_bounds [OF b]
  show "updateInterest user (?L + k1 * 604800 + k2 * 604800) s =
           (None, set_position s user
              (p\<lparr>accumulatedInterest := ?A + ?P * 5 * (k1 + k2) div 100,
                 lastInterestUpdate := ?L + k1 * 604800 + k2 * 604800\<rparr>))"
    by (rule updateInterest_after_weeks [OF p l c k12 t2 b])
  show "updateInterest user (?L + k1 * 604800) s =
           (None, set_position s user
              (p\<lparr>accumulatedInterest := ?A + ?P * 5 * k1 div 100,
                 lastInterestUpdate := ?L + k1 * 604800\<rparr>))"
    by (rule updateInterest_after_weeks [OF p l c k1 refl sb(1) sb(3)])
  let ?p1 = "p\<lparr>accumulatedInterest := ?A + ?P * 5 * k1 div 100,
                lastInterestUpdate := ?L + k1 * 604800\<rparr>"
  let ?s1 = "set_position s user ?p1"
  have p1: "userPositions ?s1 user = ?p1" by (simp add: set_position_def)
  have l1: "0 < loanAmount ?p1" using l by simp
  have c1: "0 < lastInterestUpdate ?p1" using c by simp
  have t: "?L + k1 * 604800 + k2 * 604800 = lastInterestUpdate ?p1 + k2 * 604800" by simp
  have b1: "loanAmount ?p1 * 5 * k2 \<le> MAX_UINT256" using sb(2) by simp
  have b2: "accumulatedInterest ?p1 + loanAmount ?p1 * 5 * k2 div 100 \<le> MAX_UINT256"
    using sb(4) by simp
  have "updateInterest user (?L + k1 * 604800 + k2 * 604800) ?s1 =
      (None, set_position ?s1 user
         (?p1\<lparr>accumulatedInterest :=
                 accumulatedInterest ?p1 + loanAmount ?p1 * 5 * k2 div 100,
               lastInterestUpdate := ?L + k1 * 604800 + k2 * 604800\<rparr>))"
    by (rule updateInterest_after_weeks [OF p1 l1 c1 k2 t b1 b2])
  then show "updateInterest user (?L + k1 * 604800 + k2 * 604800) ?s1 =
           (None, set_position s user
              (p\<lparr>accumulatedInterest := ?A + ?P * 5 * k1 div 100 + ?P * 5 * k2 div 100,
                 lastInterestUpdate := ?L + k1 * 604800 + k2 * 604800\<rparr>))"
    by (simp add: set_position_def)
qed

text \<open>
  C10. Interest is floored at every accrual, so splitting an accrual never charges more:
  floor(P * 5 * k1 / 100) + floor(P * 5 * k2 / 100) \<open>\<le>\<close> floor(P * 5 * (k1 + k2) / 100)
  for every principal \<open>P\<close> and all period counts, and for every \<open>P\<close> with
  \<open>P * 5\<close> not divisible by \<open>100\<close> the split into \<open>1\<close> and \<open>19\<close> periods charges
  strictly less. On the contract: for a position with a principal and a running accrual
  clock, if \<open>_updateInterest\<close> succeeds once after \<open>k1 + k2\<close> whole weeks, then it
  also succeeds after \<open>k1\<close> weeks and again \<open>k2\<close> weeks later, and the interest
  accrued by the two calls is at most the interest accrued by the single one.
\<close>

theorem split_accrual_charges_no_more:
  "P * INTEREST_RATE * k1 div PRECISION + P * INTEREST_RATE * k2 div PRECISION
      \<le> P * INTEREST_RATE * (k1 + k2) div PRECISION
   \<and> (P * INTEREST_RATE mod PRECISION \<noteq> 0 \<longrightarrow>
        P * INTEREST_RATE * 1 div PRECISION + P * INTEREST_RATE * 19 div PRECISION
          < P * INTEREST_RATE * (1 + 19) div PRECISION)
   \<and> (let p = userPositions s user;
          t1 = lastInterestUpdate p + k1 * (7 * 24 * 60 * 60);
          t2 = t1 + k2 * (7 * 24 * 60 * 60);
          once = updateInterest user t2 s;
          first = updateInterest user t1 s;
          second = updateInterest user t2 (snd first)
      in 0 < loanAmount p \<and> 0 < lastInterestUpdate p \<and> 0 < k1 \<and> 0 < k2
           \<and> fst once = None \<longrightarrow>
           fst first = None \<and> fst second = None
         \<and> accumulatedInterest (userPositions (snd once) user)
             = accumulatedInterest p + loanAmount p * 5 * (k1 + k2) div 100
         \<and> accumulatedInterest (userPositions (snd second) user)
             = accumulatedInterest p + loanAmount p * 5 * k1 div 100
                 + loanAmount p * 5 * k2 div 100
         \<and> accumulatedInterest (userPositions (snd second) user)
             \<le> accumulatedInterest (userPositions (snd once) user))"
proof (intro conjI)
  show "P * INTEREST_RATE * k1 div PRECISION + P * INTEREST_RATE * k2 div PRECISION
      \<le> P * INTEREST_RATE * (k1 + k2) div PRECISION"
    unfolding constants by (rule interest_superadditive)
  show "P * INTEREST_RATE mod PRECISION \<noteq> 0 \<longrightarrow>
        P * INTEREST_RATE * 1 div PRECISION + P * INTEREST_RATE * 19 div PRECISION
          < P * INTEREST_RATE * (1 + 19) div PRECISION"
    unfolding constants using interest_split_strict [of P] by blast
  have w: "(7::nat) * 24 * 60 * 60 = 604800" by simp
  show "let p = userPositions s user;
          t1 = lastInterestUpdate p + k1 * (7 * 24 * 60 * 60);
          t2 = t1 + k2 * (7 * 24 * 60 * 60);
          once = updateInterest user t2 s;
          first = updateInterest user t1 s;
          second = updateInterest user t2 (snd first)
      in 0 < loanAmount p \<and> 0 < lastInterestUpdate p \<and> 0 < k1 \<and> 0 < k2
           \<and> fst once = None \<longrightarrow>
           fst first = None \<and> fst second = None
         \<and> accumulatedInterest (userPositions (snd once) user)
             = accumulatedInterest p + loanAmount p * 5 * (k1 + k2) div 100
         \<and> accumulatedInterest (userPositions (snd second) user)
             = accumulatedInterest p + loanAmount p * 5 * k1 div 100
                 + loanAmount p * 5 * k2 div 100
         \<and> accumulatedInterest (userPositions (snd second) user)
             \<le> accumulatedInterest (userPositions (snd once) user)"
    unfolding Let_def w
  proof (intro impI, elim conjE)
    let ?p = "userPositions s user"
    assume l: "0 < loanAmount ?p" and c: "0 < lastInterestUpdate ?p"
      and k1: "0 < k1" and k2: "0 < k2"
      and once: "fst (updateInterest user
                   (lastInterestUpdate ?p + k1 * 604800 + k2 * 604800) s) = None"
    note sa = split_accrual [OF refl l c k1 k2 once]
    have sup: "accumulatedInterest ?p + loanAmount ?p * 5 * k1 div 100
                 + loanAmount ?p * 5 * k2 div 100
             \<le> accumulatedInterest ?p + loanAmount ?p * 5 * (k1 + k2) div 100"
      using add_left_mono [OF interest_superadditive [of "loanAmount ?p" k1 k2],
          of "accumulatedInterest ?p"]
      by (simp only: add.assoc)
    show "fst (updateInterest user (lastInterestUpdate ?p + k1 * 604800) s) = None
       \<and> fst (updateInterest user (lastInterestUpdate ?p + k1 * 604800 + k2 * 604800)
               (snd (updateInterest user (lastInterestUpdate ?p + k1 * 604800) s))) = None
       \<and> accumulatedInterest (userPositions
             (snd (updateInterest user
                (lastInterestUpdate ?p + k1 * 604800 + k2 * 604800) s)) user)
           = accumulatedInterest ?p + loanAmount ?p * 5 * (k1 + k2) div 100
       \<and> accumulatedInterest (userPositions
             (snd (updateInterest user (lastInterestUpdate ?p + k1 * 604800 + k2 * 604800)
               (snd (updateInterest user (lastInterestUpdate ?p + k1 * 604800) s)))) user)
           = accumulatedInterest ?p + loanAmount ?p * 5 * k1 div 100
               + loanAmount ?p * 5 * k2 div 100
       \<and> accumulatedInterest (userPositions
             (snd (updateInterest user (lastInterestUpdate ?p + k1 * 604800 + k2 * 604800)
               (snd (updateInterest user (lastInterestUpdate ?p + k1 * 604800) s)))) user)
           \<le> accumulatedInterest (userPositions
             (snd (updateInterest user
                (lastInterestUpdate ?p + k1 * 604800 + k2 * 604800) s)) user)"
      unfolding sa(2) snd_conv fst_conv sa(3) sa(1)
      using sup by (simp add: set_position_def)
  qed
qed

theorem split_accrual_charges_no_more_witness:
  "30 * INTEREST_RATE mod PRECISION \<noteq> 0
   \<and> 30 * INTEREST_RATE * 1 div PRECISION + 30 * INTEREST_RATE * 19 div PRECISION
       < 30 * INTEREST_RATE * (1 + 19) div PRECISION
   \<and> 0 < loanAmount (userPositions small_loan 7)
   \<and> 0 < lastInterestUpdate (userPositions small_loan 7)
   \<and> fst (updateInterest 7 12097000 small_loan) = None
   \<and> fst (updateInterest 7 605800 small_loan) = None
   \<and> fst (updateInterest 7 12097000 (snd (updateInterest 7 605800 small_loan))) = None
   \<and> accumulatedInterest (userPositions (snd (updateInterest 7 12097000 small_loan)) 7) = 30
   \<and> accumulatedInterest (userPositions
        (snd (updateInterest 7 12097000 (snd (updateInterest 7 605800 small_loan)))) 7) = 29"
proof -
  have p: "userPositions small_loan 7 =
      \<lparr>collateralAmount = 1500, loanAmount = 30, lastInterestUpdate = 1000,
       accumulatedInterest = 0\<rparr>"
    by (simp add: small_loan_def fixture_def)
  have once: "fst (updateInterest 7 12097000 small_loan) = None"
    by (simp add: updateInterest_def Let_def p constants MAX_UINT256_eq)
  have m: "30 * INTEREST_RATE mod PRECISION \<noteq> 0"
    by (simp add: constants)
  have strict: "30 * INTEREST_RATE * 1 div PRECISION + 30 * INTEREST_RATE * 19 div PRECISION
       < 30 * INTEREST_RATE * (1 + 19) div PRECISION"
    using split_accrual_charges_no_more [of 30 1 19 small_loan 7] m by blast
  have code: "fst (updateInterest 7 605800 small_loan) = None
      \<and> fst (updateInterest 7 12097000 (snd (updateInterest 7 605800 small_loan))) = None
      \<and> accumulatedInterest (userPositions (snd (updateInterest 7 12097000 small_loan)) 7) = 30
      \<and> accumulatedInterest (userPositions
          (snd (updateInterest 7 12097000 (snd (updateInterest 7 605800 small_loan)))) 7) = 29"
    using split_accrual_charges_no_more [of 30 1 19 small_loan 7] once
    by (simp add: Let_def p)
  from m strict once code show ?thesis
    by (simp add: p)
qed

end
